theory Spec2Isabelle
  imports Complex_Main
begin

section \<open>Python values\<close>

text \<open>
  The program computes with Python floats. They are modelled as real numbers: every
  arithmetic operation is the exact one, \<open>math.sqrt\<close>, \<open>math.sin\<close> and \<open>math.cos\<close>
  are the real functions. Rounding error of the binary floating-point format is outside
  this development.
\<close>

text \<open>\<open>math.radians\<close> and \<open>math.degrees\<close>.\<close>

definition radians :: "real \<Rightarrow> real" where
  "radians a = a * (pi / 180)"

definition degrees :: "real \<Rightarrow> real" where
  "degrees r = r * (180 / pi)"

text \<open>
  The variables \<open>x\<close>, \<open>y\<close>, \<open>v\<close> of \<open>updateShots\<close> and the texts shown on screen
  hold either a string or a float.
\<close>

datatype pyval = Str string | Num real

datatype error = TypeError

text \<open>
  The builtin \<open>round(r, 1)\<close> on a float: the nearest multiple of one tenth, a tie going
  to the even neighbour.
\<close>

definition round_half_even :: "real \<Rightarrow> int" where
  "round_half_even r =
     (let f = \<lfloor>r\<rfloor>; d = r - of_int f
      in if d < 1 / 2 then f
         else if 1 / 2 < d then f + 1
         else if even f then f else f + 1)"

definition round1 :: "real \<Rightarrow> real" where
  "round1 r = of_int (round_half_even (r * 10)) / 10"

text \<open>
  The comparison \<open>y <= 0.0\<close>: between a string and a float it raises \<open>TypeError\<close>.
\<close>

fun py_le :: "pyval \<Rightarrow> real \<Rightarrow> error + bool" where
  "py_le (Num a) b = Inr (a \<le> b)"
| "py_le (Str s) b = Inl TypeError"

section \<open>ch10\_projectile.py: class Projectile\<close>

text \<open>
  The attribute \<open>vel\<close> does not exist until \<open>getVel\<close> is first called, which
  creates it: it is \<open>None\<close> until then.
\<close>

record Projectile =
  xpos :: real
  ypos :: real
  xvel :: real
  yvel :: real
  vel :: "real option"

definition Projectile_init :: "real \<Rightarrow> real \<Rightarrow> real \<Rightarrow> Projectile" where
  "Projectile_init angle velocity height =
     (let theta = radians angle
      in \<lparr>xpos = 0, ypos = height,
          xvel = velocity * cos theta, yvel = velocity * sin theta,
          vel = None\<rparr>)"

text \<open>The assignments of \<open>update\<close>, in the order of the source.\<close>

definition Projectile_update :: "real \<Rightarrow> Projectile \<Rightarrow> Projectile" where
  "Projectile_update time self =
     (let self = self\<lparr>xpos := xpos self + time * xvel self\<rparr>;
          yvel1 = yvel self - 9.8 * time;
          self = self\<lparr>ypos := ypos self + time * (yvel self + yvel1) / 2\<rparr>
      in self\<lparr>yvel := yvel1\<rparr>)"

definition Projectile_getY :: "Projectile \<Rightarrow> real" where
  "Projectile_getY self = ypos self"

definition Projectile_getX :: "Projectile \<Rightarrow> real" where
  "Projectile_getX self = xpos self"

text \<open>\<open>getVel\<close> stores the speed in the object and returns it.\<close>

definition Projectile_getVel :: "Projectile \<Rightarrow> real \<times> Projectile" where
  "Projectile_getVel self =
     (let v = sqrt ((xvel self)\<^sup>2 + (yvel self)\<^sup>2)
      in (v, self\<lparr>vel := Some v\<rparr>))"

section \<open>main\_animation.py: class ShotTracker\<close>

text \<open>
  Of the graphics objects a tracker owns, the record keeps the centre of the marker,
  whether the marker is drawn, whether the six overlay texts are drawn (they are drawn
  and undrawn together) and the text of the three value labels. The overlay texts are
  moved by the same offsets as the marker; their positions are not kept. Undrawing an
  object that is not drawn does nothing.
\<close>

record ShotTracker =
  proj :: Projectile
  marker :: "real \<times> real"
  marker_drawn :: bool
  stat_drawn :: bool
  statXval :: pyval
  statYval :: pyval
  statVval :: pyval

definition ShotTracker_init :: "real \<Rightarrow> real \<Rightarrow> real \<Rightarrow> ShotTracker" where
  "ShotTracker_init angle velocity height =
     \<lparr>proj = Projectile_init angle velocity height,
      marker = (0, height), marker_drawn = True, stat_drawn = True,
      statXval = Str '''', statYval = Str '''', statVval = Str ''''\<rparr>"

definition ShotTracker_update :: "real \<Rightarrow> ShotTracker \<Rightarrow> ShotTracker" where
  "ShotTracker_update dt self =
     (let self = self\<lparr>proj := Projectile_update dt (proj self)\<rparr>;
          center = marker self;
          dx = Projectile_getX (proj self) - fst center;
          dy = Projectile_getY (proj self) - snd center;
          self = self\<lparr>marker := (fst center + dx, snd center + dy)\<rparr>;
          self = self\<lparr>statXval := Num (round1 (Projectile_getX (proj self)))\<rparr>;
          r = Projectile_getVel (proj self);
          self = self\<lparr>proj := snd r, statVval := Num (round1 (fst r))\<rparr>
      in if 0 \<le> Projectile_getY (proj self) \<and> Projectile_getX (proj self) \<le> 420
         then
           (let self = self\<lparr>statYval := Num (round1 (Projectile_getY (proj self)))\<rparr>;
                r = Projectile_getVel (proj self)
            in self\<lparr>proj := snd r, statVval := Num (round1 (fst r))\<rparr>)
         else self\<lparr>stat_drawn := False\<rparr>)"

definition ShotTracker_getX :: "ShotTracker \<Rightarrow> real" where
  "ShotTracker_getX self = Projectile_getX (proj self)"

definition ShotTracker_getY :: "ShotTracker \<Rightarrow> real" where
  "ShotTracker_getY self = Projectile_getY (proj self)"

definition ShotTracker_getVel :: "ShotTracker \<Rightarrow> real \<times> ShotTracker" where
  "ShotTracker_getVel self =
     (let r = Projectile_getVel (proj self) in (fst r, self\<lparr>proj := snd r\<rparr>))"

definition ShotTracker_undraw :: "ShotTracker \<Rightarrow> ShotTracker" where
  "ShotTracker_undraw self = self\<lparr>marker_drawn := False\<rparr>"

section \<open>main\_animation.py: class Launcher\<close>

text \<open>
  The arrow is kept by its two end points. The window is not part of the record.
  The field \<open>vel\<close> of the source is \<open>lvel\<close> here, \<open>vel\<close> being the projectile's.
\<close>

record Launcher =
  angle :: real
  lvel :: real
  arrow :: "(real \<times> real) \<times> (real \<times> real)"

definition Launcher_redraw :: "Launcher \<Rightarrow> Launcher" where
  "Launcher_redraw self =
     (let pt2 = (lvel self * cos (angle self), lvel self * sin (angle self))
      in self\<lparr>arrow := ((0, 0), pt2)\<rparr>)"

definition Launcher_init :: Launcher where
  "Launcher_init =
     Launcher_redraw \<lparr>angle = radians 45, lvel = 40, arrow = ((0, 0), (0, 0))\<rparr>"

definition adjAngle :: "real \<Rightarrow> Launcher \<Rightarrow> Launcher" where
  "adjAngle amt self = Launcher_redraw (self\<lparr>angle := angle self + radians amt\<rparr>)"

definition adjVel :: "real \<Rightarrow> Launcher \<Rightarrow> Launcher" where
  "adjVel amt self = Launcher_redraw (self\<lparr>lvel := lvel self + amt\<rparr>)"

definition fire :: "Launcher \<Rightarrow> ShotTracker" where
  "fire self = ShotTracker_init (degrees (angle self)) (lvel self) 0"

section \<open>main\_animation.py: class ProjectileApp\<close>

record ProjectileApp =
  launcher :: Launcher
  initAngle :: pyval
  initVel :: pyval
  shots :: "ShotTracker list"

definition ProjectileApp_init :: ProjectileApp where
  "ProjectileApp_init =
     (let l = Launcher_init
      in \<lparr>launcher = l, initAngle = Num (angle l * (180 / pi)), initVel = Num (lvel l),
          shots = []\<rparr>)"

text \<open>
  The body of the loop of \<open>updateShots\<close>, on the variables \<open>alive\<close>, \<open>x\<close>, \<open>y\<close>,
  \<open>v\<close>. It returns, beside them, the tracker as the body leaves it.
\<close>

type_synonym loop_vars = "ShotTracker list \<times> pyval \<times> pyval \<times> pyval"

definition updateShots_body ::
  "real \<Rightarrow> ShotTracker \<Rightarrow> loop_vars \<Rightarrow> ShotTracker \<times> loop_vars" where
  "updateShots_body dt shot0 vars =
     (let alive = fst vars;
          shot = ShotTracker_update dt shot0;
          x = Num (round1 (ShotTracker_getX shot));
          r = ShotTracker_getVel shot;
          shot = snd r;
          v = Num (round1 (fst r))
      in if 0 < ShotTracker_getY shot \<and> ShotTracker_getX shot < 420
         then (shot, alive @ [shot], x, Num (round1 (ShotTracker_getY shot)), v)
         else if 0 < ShotTracker_getY shot \<and> 420 < ShotTracker_getX shot
         then (ShotTracker_undraw shot, alive, Str ''N/A (>420)'', Num 0, Str ''N/A'')
         else (ShotTracker_undraw shot, alive, x, Num 0, v))"

fun updateShots_loop :: "real \<Rightarrow> ShotTracker list \<Rightarrow> loop_vars \<Rightarrow> loop_vars" where
  "updateShots_loop dt [] vars = vars"
| "updateShots_loop dt (shot # rest) vars =
     updateShots_loop dt rest (snd (updateShots_body dt shot vars))"

definition updateShots ::
  "real \<Rightarrow> ProjectileApp \<Rightarrow> ProjectileApp \<times> pyval \<times> pyval \<times> pyval" where
  "updateShots dt self =
     (let vars = updateShots_loop dt (shots self) ([], Str '''', Str '''', Str '''')
      in (self\<lparr>shots := fst vars\<rparr>, snd vars))"

text \<open>
  The state of \<open>run\<close>: the application and the two summary texts \<open>finPos\<close> and
  \<open>finVel\<close>, which are local to \<open>run\<close>.
\<close>

record RunState =
  app :: ProjectileApp
  finPos :: pyval
  finVel :: pyval

definition run_init :: "ProjectileApp \<Rightarrow> RunState" where
  "run_init self = \<lparr>app = self, finPos = Str '''', finVel = Str ''''\<rparr>"

text \<open>The test \<open>x != "" and y <= 0.0\<close>; \<open>and\<close> does not evaluate its right side
  when the left one is false.\<close>

definition summary_guard :: "pyval \<Rightarrow> pyval \<Rightarrow> error + bool" where
  "summary_guard x y = (if x \<noteq> Str '''' then py_le y 0 else Inr False)"

text \<open>The chain of tests on the key, after the test for quitting.\<close>

definition handle_key :: "string \<Rightarrow> ProjectileApp \<Rightarrow> ProjectileApp" where
  "handle_key key self =
     (if key = ''Up'' then
        (let l = adjAngle 2.5 (launcher self)
         in self\<lparr>launcher := l, initAngle := Num (round1 (angle l * (180 / pi)))\<rparr>)
      else if key = ''Down'' then
        (let l = adjAngle (- 2.5) (launcher self)
         in self\<lparr>launcher := l, initAngle := Num (round1 (angle l * (180 / pi)))\<rparr>)
      else if key = ''Right'' then
        (let l = adjVel 1 (launcher self)
         in self\<lparr>launcher := l, initVel := Num (round1 (lvel l))\<rparr>)
      else if key = ''Left'' then
        (let l = adjVel (- 1) (launcher self)
         in self\<lparr>launcher := l, initVel := Num (round1 (lvel l))\<rparr>)
      else if key = ''f'' then self\<lparr>shots := shots self @ [fire (launcher self)]\<rparr>
      else self)"

text \<open>
  One pass through the body of \<open>while True\<close> with the key that \<open>checkKey\<close> returns
  (the empty string when none is pressed). The boolean tells whether the loop goes on:
  it is \<open>False\<close> after \<open>break\<close>.
\<close>

definition run_frame :: "string \<Rightarrow> RunState \<Rightarrow> error + (RunState \<times> bool)" where
  "run_frame key st =
     (let r = updateShots (1 / 120) (app st);
          st = st\<lparr>app := fst r\<rparr>;
          x = fst (snd r); y = fst (snd (snd r)); v = snd (snd (snd r))
      in case summary_guard x y of
           Inl e \<Rightarrow> Inl e
         | Inr g \<Rightarrow>
             (let st = (if g then st\<lparr>finPos := x, finVel := v\<rparr> else st)
              in if key \<in> set [''q'', ''Q''] then Inr (st, False)
                 else Inr (st\<lparr>app := handle_key key (app st)\<rparr>, True)))"

text \<open>The loop, on the keys of the successive frames.\<close>

fun run_loop :: "string list \<Rightarrow> RunState \<Rightarrow> error + RunState" where
  "run_loop [] st = Inr st"
| "run_loop (key # keys) st =
     (case run_frame key st of
        Inl e \<Rightarrow> Inl e
      | Inr (st', go) \<Rightarrow> if go then run_loop keys st' else Inr st')"

section \<open>The projectile\<close>

text \<open>
  C1. One call of \<open>update\<close> with step \<open>dt\<close> gives the new vertical velocity
  \<open>vy - 9.8 * dt\<close>, the new height \<open>y + dt * (vy + new_vy) / 2\<close> (the step uses the
  mean of the old and the new vertical velocity), the new distance \<open>x + dt * vx\<close>, and
  changes nothing else: the horizontal velocity and the stored speed stay as they were.
\<close>

theorem C1_update_formula:
  "yvel (Projectile_update dt p) = yvel p - 9.8 * dt \<and>
   ypos (Projectile_update dt p) =
     ypos p + dt * (yvel p + yvel (Projectile_update dt p)) / 2 \<and>
   xpos (Projectile_update dt p) = xpos p + dt * xvel p \<and>
   xvel (Projectile_update dt p) = xvel p \<and>
   vel (Projectile_update dt p) = vel p"
  by (simp add: Projectile_update_def Let_def)

lemma yvel_update: "yvel (Projectile_update dt p) = yvel p - 9.8 * dt"
  by (simp add: Projectile_update_def Let_def)

lemma ypos_update:
  "ypos (Projectile_update dt p) = ypos p + dt * (2 * yvel p - 9.8 * dt) / 2"
  by (simp add: Projectile_update_def Let_def)

lemma xpos_update: "xpos (Projectile_update dt p) = xpos p + dt * xvel p"
  by (simp add: Projectile_update_def Let_def)

lemma xvel_update: "xvel (Projectile_update dt p) = xvel p"
  by (simp add: Projectile_update_def Let_def)

text \<open>After \<open>n\<close> steps the vertical velocity has lost \<open>9.8\<close> times the elapsed time.\<close>

lemma yvel_funpow:
  "yvel ((Projectile_update dt ^^ n) p) = yvel p - 9.8 * (real n * dt)"
  by (induction n) (simp_all add: yvel_update field_simps)

lemma ypos_funpow:
  "ypos ((Projectile_update dt ^^ n) p) =
     ypos p + yvel p * (real n * dt) - 4.9 * (real n * dt)\<^sup>2"
proof (induction n)
  case 0
  show ?case by simp
next
  case (Suc n)
  have "ypos ((Projectile_update dt ^^ Suc n) p) =
      ypos ((Projectile_update dt ^^ n) p) +
      dt * (2 * yvel ((Projectile_update dt ^^ n) p) - 9.8 * dt) / 2"
    by (simp add: ypos_update)
  also have "\<dots> = ypos p + yvel p * (real (Suc n) * dt) - 4.9 * (real (Suc n) * dt)\<^sup>2"
    by (simp add: Suc.IH yvel_funpow power2_eq_square field_simps)
  finally show ?case .
qed

text \<open>
  C5. From any state, and so from the state \<open>__init__\<close> builds, \<open>n\<close> calls of
  \<open>update\<close> with step \<open>dt\<close> leave the height at \<open>y0 + vy0 * T - 4.9 * T\<^sup>2\<close>,
  where \<open>T = n * dt\<close> is the elapsed time, \<open>y0\<close> the height and \<open>vy0\<close> the vertical
  velocity at the start.
\<close>

theorem C5_closed_form:
  "ypos ((Projectile_update dt ^^ n) p) =
     ypos p + yvel p * (real n * dt) - 4.9 * (real n * dt)\<^sup>2 \<and>
   ypos ((Projectile_update dt ^^ n) (Projectile_init a s h)) =
     h + s * sin (radians a) * (real n * dt) - 4.9 * (real n * dt)\<^sup>2"
  by (simp add: ypos_funpow Projectile_init_def Let_def)

text \<open>
  C8. Whatever the steps of a sequence of \<open>update\<close> calls, the horizontal velocity
  keeps the value it had before; for a projectile just built, that is
  \<open>velocity * cos (radians angle)\<close>.
\<close>

theorem C8_xvel_constant:
  "xvel (foldl (\<lambda>q dt. Projectile_update dt q) p dts) = xvel p \<and>
   xvel (foldl (\<lambda>q dt. Projectile_update dt q) (Projectile_init a s h) dts) =
     s * cos (radians a)"
proof -
  have "xvel (foldl (\<lambda>q dt. Projectile_update dt q) q dts) = xvel q" for q :: Projectile
    by (induction dts arbitrary: q) (simp_all add: xvel_update)
  then show ?thesis by (simp add: Projectile_init_def Let_def)
qed

text \<open>The speed of a projectile just built is the absolute value of the launch speed.\<close>

lemma getVel_init:
  "fst (Projectile_getVel (Projectile_init a s h)) = \<bar>s\<bar>"
proof -
  let ?c = "cos (radians a)" and ?d = "sin (radians a)"
  have "(s * ?c)\<^sup>2 + (s * ?d)\<^sup>2 = s\<^sup>2 * (?c\<^sup>2 + ?d\<^sup>2)"
    by (simp only: power_mult_distrib distrib_left)
  also have "\<dots> = s\<^sup>2"
    by (simp only: sin_cos_squared_add2 mult_1_right)
  finally show ?thesis
    by (simp add: Projectile_getVel_def Projectile_init_def Let_def)
qed

text \<open>
  C4, as the code has it. A projectile just built is at \<open>(0, height)\<close>, its velocity
  is \<open>(speed * cos t, speed * sin t)\<close> with \<open>t\<close> the angle in radians, and
  \<open>getVel\<close> returns the absolute value of the launch speed: the launch speed itself
  when that is not negative.
\<close>

theorem C4_init:
  "xpos (Projectile_init a s h) = 0 \<and> ypos (Projectile_init a s h) = h \<and>
   xvel (Projectile_init a s h) = s * cos (a * pi / 180) \<and>
   yvel (Projectile_init a s h) = s * sin (a * pi / 180) \<and>
   fst (Projectile_getVel (Projectile_init a s h)) = \<bar>s\<bar>"
  using getVel_init [of a s h] by (simp add: Projectile_init_def Let_def radians_def)

text \<open>
  C4 as stated fails for a negative launch speed, which the launcher reaches after
  \<open>adjVel\<close> has lowered it below zero: with speed \<open>-1\<close> the speed query returns \<open>1\<close>.
\<close>

theorem C4_counterexample:
  "fst (Projectile_getVel (Projectile_init 0 (- 1) 0)) = 1 \<and>
   fst (Projectile_getVel (Projectile_init 0 (- 1) 0)) \<noteq> - 1"
  by (simp add: Projectile_getVel_def Projectile_init_def Let_def radians_def)

section \<open>The launcher\<close>

lemma angle_redraw: "angle (Launcher_redraw l) = angle l"
  by (simp add: Launcher_redraw_def Let_def)

lemma angle_adjAngles:
  "angle (foldl (\<lambda>l d. adjAngle d l) l ds) = angle l + radians (sum_list ds)"
  by (induction ds arbitrary: l)
    (simp_all add: adjAngle_def angle_redraw radians_def algebra_simps)

text \<open>
  C7. After any sequence of \<open>adjAngle\<close> calls on a new launcher the stored angle is,
  in radians, 45 degrees plus the sum of the amounts: nothing clamps it. Five calls with
  2.5 leave 57.5 degrees.
\<close>

theorem C7_adjAngle_sum:
  "angle (foldl (\<lambda>l d. adjAngle d l) Launcher_init ds) = radians (45 + sum_list ds) \<and>
   degrees (angle (foldl (\<lambda>l d. adjAngle d l) Launcher_init ds)) = 45 + sum_list ds \<and>
   angle (foldl (\<lambda>l d. adjAngle d l) Launcher_init [2.5, 2.5, 2.5, 2.5, 2.5]) = radians 57.5"
proof -
  have a: "angle (foldl (\<lambda>l d. adjAngle d l) Launcher_init ds) = radians (45 + sum_list ds)"
    for ds
    by (simp add: angle_adjAngles Launcher_init_def angle_redraw radians_def algebra_simps)
  have b: "degrees (radians r) = r" for r
    by (simp add: degrees_def radians_def)
  have c: "sum_list [2.5, 2.5, 2.5, 2.5, 2.5 :: real] = 12.5" by simp
  show ?thesis unfolding a b using a [of "[2.5, 2.5, 2.5, 2.5, 2.5]"] unfolding c by simp
qed

section \<open>The tracker after an update\<close>

text \<open>
  \<open>ShotTracker.update\<close> has already called \<open>getVel\<close> on the projectile, so the
  call of \<open>getVel\<close> that \<open>updateShots\<close> makes next stores the same speed again and
  leaves the tracker as it is.
\<close>

lemma ShotTracker_getVel_update:
  "snd (ShotTracker_getVel (ShotTracker_update dt s)) = ShotTracker_update dt s"
  by (simp add: ShotTracker_getVel_def ShotTracker_update_def Projectile_getVel_def Let_def)

lemma getX_update:
  "ShotTracker_getX (ShotTracker_update dt s) = xpos (proj s) + dt * xvel (proj s)"
  by (simp add: ShotTracker_getX_def ShotTracker_update_def Projectile_getVel_def
      Projectile_getX_def xpos_update Let_def)

lemma getY_update:
  "ShotTracker_getY (ShotTracker_update dt s) =
     ypos (proj s) + dt * (2 * yvel (proj s) - 9.8 * dt) / 2"
  by (simp add: ShotTracker_getY_def ShotTracker_update_def Projectile_getVel_def
      Projectile_getY_def ypos_update Let_def)

lemma getX_fire: "ShotTracker_getX (fire l) = 0"
  by (simp add: fire_def ShotTracker_getX_def ShotTracker_init_def Projectile_init_def
      Projectile_getX_def Let_def)

section \<open>Rounding\<close>

lemma round1_pos: "1 / 20 < r \<Longrightarrow> 0 < round1 r"
proof -
  assume r: "1 / 20 < r"
  then have f: "0 \<le> \<lfloor>r * 10\<rfloor>" by simp
  have "0 < round_half_even (r * 10)"
  proof (cases "\<lfloor>r * 10\<rfloor> = 0")
    case True
    then have "1 / 2 < r * 10 - of_int \<lfloor>r * 10\<rfloor>" using r by simp
    then show ?thesis using True by (simp add: round_half_even_def Let_def)
  next
    case False
    then have "0 < \<lfloor>r * 10\<rfloor>" using f by linarith
    then show ?thesis by (simp add: round_half_even_def Let_def)
  qed
  then show ?thesis by (simp add: round1_def)
qed

lemma round1_420: "round1 420 = 420"
  by (simp add: round1_def round_half_even_def Let_def)

section \<open>The three branches of the loop body\<close>

lemma body_alive_case:
  "0 < ShotTracker_getY (ShotTracker_update dt s) \<Longrightarrow>
   ShotTracker_getX (ShotTracker_update dt s) < 420 \<Longrightarrow>
   updateShots_body dt s vars =
     (ShotTracker_update dt s, fst vars @ [ShotTracker_update dt s],
      Num (round1 (ShotTracker_getX (ShotTracker_update dt s))),
      Num (round1 (ShotTracker_getY (ShotTracker_update dt s))),
      Num (round1 (fst (ShotTracker_getVel (ShotTracker_update dt s)))))"
  by (simp add: updateShots_body_def ShotTracker_getVel_update Let_def)

lemma body_off_window:
  "0 < ShotTracker_getY (ShotTracker_update dt s) \<Longrightarrow>
   420 < ShotTracker_getX (ShotTracker_update dt s) \<Longrightarrow>
   updateShots_body dt s vars =
     (ShotTracker_undraw (ShotTracker_update dt s), fst vars,
      Str ''N/A (>420)'', Num 0, Str ''N/A'')"
  by (simp add: updateShots_body_def ShotTracker_getVel_update Let_def)

lemma body_landed:
  "\<not> (0 < ShotTracker_getY (ShotTracker_update dt s) \<and>
      ShotTracker_getX (ShotTracker_update dt s) < 420) \<Longrightarrow>
   \<not> (0 < ShotTracker_getY (ShotTracker_update dt s) \<and>
      420 < ShotTracker_getX (ShotTracker_update dt s)) \<Longrightarrow>
   updateShots_body dt s vars =
     (ShotTracker_undraw (ShotTracker_update dt s), fst vars,
      Num (round1 (ShotTracker_getX (ShotTracker_update dt s))), Num 0,
      Num (round1 (fst (ShotTracker_getVel (ShotTracker_update dt s)))))"
  by (simp add: updateShots_body_def ShotTracker_getVel_update Let_def)

text \<open>The body appends to \<open>alive\<close> and reads nothing else of the loop variables.\<close>

lemma body_alive:
  "fst (snd (updateShots_body dt s vars)) =
     fst vars @ filter (\<lambda>s. 0 < ShotTracker_getY s \<and> ShotTracker_getX s < 420)
       [ShotTracker_update dt s]"
  by (simp add: updateShots_body_def ShotTracker_getVel_update Let_def)

lemma body_vars_indep:
  "snd (snd (updateShots_body dt s vars)) = snd (snd (updateShots_body dt s vars'))"
  by (simp add: updateShots_body_def Let_def)

lemma body_vars:
  "snd (snd (updateShots_body dt s0 vars)) =
     (let s = ShotTracker_update dt s0;
          x = Num (round1 (ShotTracker_getX s));
          v = Num (round1 (fst (ShotTracker_getVel s)))
      in if 0 < ShotTracker_getY s \<and> ShotTracker_getX s < 420
         then (x, Num (round1 (ShotTracker_getY s)), v)
         else if 0 < ShotTracker_getY s \<and> 420 < ShotTracker_getX s
         then (Str ''N/A (>420)'', Num 0, Str ''N/A'')
         else (x, Num 0, v))"
  by (simp add: updateShots_body_def ShotTracker_getVel_update Let_def)

section \<open>The loop of updateShots\<close>

lemma loop_alive:
  "fst (updateShots_loop dt ss vars) =
     fst vars @ filter (\<lambda>s. 0 < ShotTracker_getY s \<and> ShotTracker_getX s < 420)
       (map (ShotTracker_update dt) ss)"
  by (induction ss arbitrary: vars) (simp_all add: body_alive)

lemma loop_append:
  "updateShots_loop dt (ss @ ts) vars = updateShots_loop dt ts (updateShots_loop dt ss vars)"
  by (induction ss arbitrary: vars) simp_all

lemma loop_last:
  "ss \<noteq> [] \<Longrightarrow>
   snd (updateShots_loop dt ss vars) = snd (snd (updateShots_body dt (last ss) vars'))"
proof -
  assume "ss \<noteq> []"
  then have "ss = butlast ss @ [last ss]" by simp
  then have "updateShots_loop dt ss vars =
      snd (updateShots_body dt (last ss) (updateShots_loop dt (butlast ss) vars))"
    by (metis loop_append updateShots_loop.simps)
  then show ?thesis using body_vars_indep by metis
qed

lemma updateShots_alive:
  "shots (fst (updateShots dt a)) =
     filter (\<lambda>s. 0 < ShotTracker_getY s \<and> ShotTracker_getX s < 420)
       (map (ShotTracker_update dt) (shots a))"
  using loop_alive [of dt "shots a"] by (simp add: updateShots_def Let_def)

lemma updateShots_vars:
  "shots a \<noteq> [] \<Longrightarrow>
   snd (updateShots dt a) = snd (snd (updateShots_body dt (last (shots a)) vars))"
  using loop_last [of "shots a" dt] by (simp add: updateShots_def Let_def)

lemma shots_handle_key:
  "shots (handle_key key a) = shots a @ (if key = ''f'' then [fire (launcher a)] else [])"
  by (simp add: handle_key_def Let_def)

section \<open>Shots fired at 60 degrees\<close>

text \<open>
  Six presses of the up key (15 degrees in all) bring a new launcher to 60 degrees,
  where the cosine is one half; a shot fired there with speed \<open>v\<close> moves \<open>v / 2\<close>
  metres per second to the right. These shots are the concrete inputs below.
\<close>

lemma fire_adj: "fire (adjVel v (adjAngle 15 Launcher_init)) = ShotTracker_init 60 (40 + v) 0"
  by (simp add: fire_def adjVel_def adjAngle_def Launcher_init_def Launcher_redraw_def
      radians_def degrees_def Let_def)

lemma fire_adj0: "fire (adjAngle 15 Launcher_init) = ShotTracker_init 60 40 0"
  by (simp add: fire_def adjAngle_def Launcher_init_def Launcher_redraw_def
      radians_def degrees_def Let_def)

lemma Projectile_init_60:
  "Projectile_init 60 v 0 =
     \<lparr>xpos = 0, ypos = 0, xvel = v / 2, yvel = v * sqrt 3 / 2, vel = None\<rparr>"
  by (simp add: Projectile_init_def radians_def Let_def cos_60 sin_60)

lemma getX_fired:
  "ShotTracker_getX (ShotTracker_update dt (fire (adjVel v (adjAngle 15 Launcher_init)))) =
     dt * ((40 + v) / 2)"
  by (simp add: fire_adj getX_update ShotTracker_init_def Projectile_init_60)

lemma getY_fired:
  "ShotTracker_getY (ShotTracker_update dt (fire (adjVel v (adjAngle 15 Launcher_init)))) =
     dt * ((40 + v) * sqrt 3 - 9.8 * dt) / 2"
  by (simp add: fire_adj getY_update ShotTracker_init_def Projectile_init_60)

lemma sqrt3_gt1: "1 < sqrt 3"
  by simp

lemma getY_fired_pos:
  "0 \<le> v \<Longrightarrow>
   1 / 20 < ShotTracker_getY
     (ShotTracker_update (1 / 120) (fire (adjVel v (adjAngle 15 Launcher_init))))"
proof -
  assume v: "0 \<le> v"
  have "40 \<le> (40 + v) * 1" using v by simp
  also have "\<dots> < (40 + v) * sqrt 3"
    using v sqrt3_gt1 by (intro mult_strict_left_mono) auto
  finally have "40 < (40 + v) * sqrt 3" .
  then show ?thesis unfolding getY_fired by simp
qed

lemma getX_fired0:
  "ShotTracker_getX (ShotTracker_update dt (fire (adjAngle 15 Launcher_init))) = dt * 20"
  by (simp add: fire_adj0 getX_update ShotTracker_init_def Projectile_init_60)

lemma getY_fired0:
  "1 / 20 < ShotTracker_getY (ShotTracker_update (1 / 120) (fire (adjAngle 15 Launcher_init)))"
proof -
  have e: "ShotTracker_getY (ShotTracker_update (1 / 120) (fire (adjAngle 15 Launcher_init))) =
      sqrt 3 / 6 - 49 / 144000"
    by (simp add: fire_adj0 getY_update ShotTracker_init_def Projectile_init_60)
  show ?thesis unfolding e using sqrt3_gt1 by linarith
qed

section \<open>The per-frame update\<close>

text \<open>
  The trackers of \<open>self.shots\<close> are distinct objects (each comes from its own call of
  \<open>fire\<close>), so the list of their states is all the loop depends on.
\<close>

text \<open>
  C2, as the code has it. After the per-frame update the active collection holds, in
  their order, exactly the updated shots with \<open>y > 0\<close> and \<open>x < 420\<close>. A shot with
  \<open>y \<le> 0\<close> is dropped, and so is a shot with \<open>x \<ge> 420\<close>, also one that is still above
  the ground: it does not stay in the collection. The update only drops shots; it puts
  none back.
\<close>

theorem C2_active_collection:
  "shots (fst (updateShots dt a)) =
     filter (\<lambda>s. 0 < ShotTracker_getY s \<and> ShotTracker_getX s < 420)
       (map (ShotTracker_update dt) (shots a))"
  by (rule updateShots_alive)

text \<open>
  C2 as stated fails: a shot fired at 60 degrees with speed 120000 is, after one frame,
  at \<open>x = 500\<close> above the ground, and the collection that held it is empty.
\<close>

theorem C2_counterexample:
  "0 < ShotTracker_getY (ShotTracker_update (1 / 120)
         (fire (adjVel 119960 (adjAngle 15 Launcher_init)))) \<and>
   420 < ShotTracker_getX (ShotTracker_update (1 / 120)
         (fire (adjVel 119960 (adjAngle 15 Launcher_init)))) \<and>
   shots (fst (updateShots (1 / 120)
     (ProjectileApp_init\<lparr>shots := [fire (adjVel 119960 (adjAngle 15 Launcher_init))]\<rparr>))) = []"
proof -
  let ?A = "fire (adjVel 119960 (adjAngle 15 Launcher_init))"
  have y: "0 < ShotTracker_getY (ShotTracker_update (1 / 120) ?A)"
    using getY_fired_pos [of 119960] by simp
  have x: "ShotTracker_getX (ShotTracker_update (1 / 120) ?A) = 500"
    by (simp add: getX_fired)
  show ?thesis using y by (simp add: x updateShots_alive)
qed

text \<open>
  C6. When the active collection is not empty, the values \<open>x\<close>, \<open>y\<close>, \<open>v\<close>
  that the per-frame update returns for the summary are those of the last shot of the
  list: every pass of the loop overwrites the three variables, so the update of the
  whole list returns what the update of the last shot alone returns, namely the values
  its branch of the body assigns.
\<close>

theorem C6_last_shot_values:
  assumes "shots a \<noteq> []"
  shows "snd (updateShots dt a) = snd (updateShots dt (a\<lparr>shots := [last (shots a)]\<rparr>)) \<and>
    snd (updateShots dt a) =
     (let s = ShotTracker_update dt (last (shots a));
          x = Num (round1 (ShotTracker_getX s));
          v = Num (round1 (fst (ShotTracker_getVel s)))
      in if 0 < ShotTracker_getY s \<and> ShotTracker_getX s < 420
         then (x, Num (round1 (ShotTracker_getY s)), v)
         else if 0 < ShotTracker_getY s \<and> 420 < ShotTracker_getX s
         then (Str ''N/A (>420)'', Num 0, Str ''N/A'')
         else (x, Num 0, v))"
proof -
  let ?v0 = "([], Str '''', Str '''', Str '''')"
  have 1: "snd (updateShots dt a) = snd (snd (updateShots_body dt (last (shots a)) ?v0))"
    by (rule updateShots_vars [OF assms])
  have 2: "snd (updateShots dt (a\<lparr>shots := [last (shots a)]\<rparr>)) =
      snd (snd (updateShots_body dt (last (shots a)) ?v0))"
    by (simp add: updateShots_def Let_def)
  show ?thesis unfolding 2 unfolding 1 body_vars by simp
qed

text \<open>
  An instance: of two shots in flight, the second alone decides the values.
\<close>

theorem C6_last_shot_values_witness:
  "shots (ProjectileApp_init\<lparr>shots :=
      [fire (adjVel 119960 (adjAngle 15 Launcher_init)), fire (adjAngle 15 Launcher_init)]\<rparr>) \<noteq> [] \<and>
   snd (updateShots (1 / 120) (ProjectileApp_init\<lparr>shots :=
      [fire (adjVel 119960 (adjAngle 15 Launcher_init)), fire (adjAngle 15 Launcher_init)]\<rparr>)) =
   snd (updateShots (1 / 120) (ProjectileApp_init\<lparr>shots := [fire (adjAngle 15 Launcher_init)]\<rparr>))"
  using C6_last_shot_values [of "ProjectileApp_init\<lparr>shots :=
      [fire (adjVel 119960 (adjAngle 15 Launcher_init)), fire (adjAngle 15 Launcher_init)]\<rparr>" "1 / 120"]
  by simp

text \<open>
  A shot launched level (angle 0, where the cosine is 1 and the sine 0) with speed 840
  from a height of 10 metres and advanced by half a second is the concrete input for
  the boundary \<open>x = 420\<close>: its distance is \<open>840 / 2\<close>, its height 8.775, and its
  speed, a little above 840, rounds to 840.
\<close>

lemma round1_between:
  "of_int n / 10 \<le> r \<Longrightarrow> r < of_int n / 10 + 1 / 20 \<Longrightarrow> round1 r = of_int n / 10"
proof -
  assume lo: "of_int n / 10 \<le> r" and hi: "r < of_int n / 10 + 1 / 20"
  have f: "\<lfloor>r * 10\<rfloor> = n"
    using lo hi by (intro floor_unique) simp_all
  have "r * 10 - of_int n < 1 / 2" using hi by simp
  then have "round_half_even (r * 10) = n"
    by (simp add: round_half_even_def f Let_def)
  then show ?thesis by (simp add: round1_def)
qed

lemma getVel_update:
  "fst (ShotTracker_getVel (ShotTracker_update dt s)) =
     sqrt ((xvel (proj s))\<^sup>2 + (yvel (proj s) - 9.8 * dt)\<^sup>2)"
  by (simp add: ShotTracker_getVel_def ShotTracker_update_def Projectile_getVel_def
      xvel_update yvel_update Let_def)

lemma Projectile_init_level:
  "Projectile_init 0 v h = \<lparr>xpos = 0, ypos = h, xvel = v, yvel = 0, vel = None\<rparr>"
  by (simp add: Projectile_init_def radians_def Let_def)

lemma speed_840: "round1 (sqrt (840\<^sup>2 + (0 - 9.8 * (1 / 2))\<^sup>2)) = 840"
proof -
  let ?q = "840\<^sup>2 + (0 - 9.8 * (1 / 2))\<^sup>2 :: real"
  have lo: "840 \<le> sqrt ?q"
    by (rule real_le_rsqrt) simp
  have hi: "sqrt ?q < 840 + 1 / 20"
    by (rule real_less_lsqrt) (simp_all add: power2_eq_square)
  show ?thesis
    using round1_between [of 8400 "sqrt ?q"] lo hi by simp
qed

text \<open>
  C9. A shot that the update leaves above the ground at exactly \<open>x = 420\<close> fails
  both strict tests \<open>x < 420\<close> and \<open>x > 420\<close> and takes the last branch of the
  body, the one of a landed shot: its marker is undrawn, it is not added to \<open>alive\<close>,
  so the rebuilt collection is the one the other shots alone would give, and, the shot
  being the last of the list, the values returned for the summary are the rounded
  distance \<open>420.0\<close>, the height \<open>0.0\<close> and the rounded speed (numbers, not the
  texts of a shot beyond the window).
\<close>

theorem C9_exactly_420:
  assumes "0 < ShotTracker_getY (ShotTracker_update dt s)"
    and "ShotTracker_getX (ShotTracker_update dt s) = 420"
  shows "updateShots_body dt s vars =
      (ShotTracker_undraw (ShotTracker_update dt s), fst vars, Num 420, Num 0,
       Num (round1 (fst (ShotTracker_getVel (ShotTracker_update dt s))))) \<and>
    marker_drawn (fst (updateShots_body dt s vars)) = False \<and>
    ShotTracker_update dt s \<notin> set (shots (fst (updateShots dt (a\<lparr>shots := pre @ s # post\<rparr>)))) \<and>
    fst (snd (snd (updateShots dt (a\<lparr>shots := pre @ [s]\<rparr>)))) = Num 0 \<and>
    shots (fst (updateShots dt (a\<lparr>shots := pre @ s # post\<rparr>))) =
      shots (fst (updateShots dt (a\<lparr>shots := pre @ post\<rparr>))) \<and>
    snd (updateShots dt (a\<lparr>shots := pre @ [s]\<rparr>)) =
      (Num 420, Num 0, Num (round1 (fst (ShotTracker_getVel (ShotTracker_update dt s)))))"
proof -
  have b: "updateShots_body dt s vars =
      (ShotTracker_undraw (ShotTracker_update dt s), fst vars, Num 420, Num 0,
       Num (round1 (fst (ShotTracker_getVel (ShotTracker_update dt s)))))" for vars
    using body_landed [of dt s vars] assms by (simp add: round1_420)
  have u: "marker_drawn (fst (updateShots_body dt s vars)) = False"
    unfolding b by (simp add: ShotTracker_undraw_def)
  have n: "ShotTracker_update dt s \<notin> set (shots (fst (updateShots dt (a\<lparr>shots := pre @ s # post\<rparr>))))"
    using assms(2) by (simp add: updateShots_alive)
  have c: "shots (fst (updateShots dt (a\<lparr>shots := pre @ s # post\<rparr>))) =
      shots (fst (updateShots dt (a\<lparr>shots := pre @ post\<rparr>)))"
    using assms(2) by (simp add: updateShots_alive)
  have "snd (updateShots dt (a\<lparr>shots := pre @ [s]\<rparr>)) =
      snd (snd (updateShots_body dt s ([], Str '''', Str '''', Str '''')))"
    using updateShots_vars [of "a\<lparr>shots := pre @ [s]\<rparr>" dt] by simp
  then have t: "snd (updateShots dt (a\<lparr>shots := pre @ [s]\<rparr>)) =
      (Num 420, Num 0, Num (round1 (fst (ShotTracker_getVel (ShotTracker_update dt s)))))"
    unfolding b by simp
  then have y: "fst (snd (snd (updateShots dt (a\<lparr>shots := pre @ [s]\<rparr>)))) = Num 0"
    by simp
  show ?thesis using b u n y c t by blast
qed

text \<open>
  An instance: the shot launched level with speed 840 from height 10, after half a
  second. The update returns an empty collection and the values 420.0, 0.0 and 840.0.
\<close>

theorem C9_exactly_420_witness:
  "0 < ShotTracker_getY (ShotTracker_update (1 / 2) (ShotTracker_init 0 840 10)) \<and>
   ShotTracker_getX (ShotTracker_update (1 / 2) (ShotTracker_init 0 840 10)) = 420 \<and>
   marker_drawn (fst (updateShots_body (1 / 2) (ShotTracker_init 0 840 10)
       ([], Str '''', Str '''', Str ''''))) = False \<and>
   updateShots (1 / 2) (ProjectileApp_init\<lparr>shots := [ShotTracker_init 0 840 10]\<rparr>) =
     (ProjectileApp_init, Num 420, Num 0, Num 840)"
proof -
  let ?s = "ShotTracker_init 0 840 10"
  let ?a = "ProjectileApp_init\<lparr>shots := [?s]\<rparr>"
  have y: "0 < ShotTracker_getY (ShotTracker_update (1 / 2) ?s)"
    by (simp add: getY_update ShotTracker_init_def Projectile_init_level)
  have x: "ShotTracker_getX (ShotTracker_update (1 / 2) ?s) = 420"
    by (simp add: getX_update ShotTracker_init_def Projectile_init_level)
  have v: "round1 (fst (ShotTracker_getVel (ShotTracker_update (1 / 2) ?s))) = 840"
    unfolding getVel_update using speed_840
    by (simp add: ShotTracker_init_def Projectile_init_level)
  have e: "shots (fst (updateShots (1 / 2) ?a)) = []"
    by (simp add: updateShots_alive x)
  have i: "shots ProjectileApp_init = []"
    by (simp add: ProjectileApp_init_def Let_def)
  have f: "fst (updateShots (1 / 2) ?a) = ProjectileApp_init"
    using e i by (simp add: updateShots_def Let_def)
  note c = C9_exactly_420 [OF y x, where vars = "([], Str '''', Str '''', Str '''')"
          and a = ProjectileApp_init and pre = "[]" and post = "[]"]
  have t: "snd (updateShots (1 / 2) ?a) = (Num 420, Num 0, Num 840)"
    using c v by simp
  have u: "marker_drawn (fst (updateShots_body (1 / 2) ?s ([], Str '''', Str '''', Str ''''))) = False"
    using c by blast
  have "updateShots (1 / 2) ?a = (ProjectileApp_init, Num 420, Num 0, Num 840)"
    using f t by (simp add: prod_eq_iff)
  then show ?thesis using y x u by blast
qed

section \<open>The summary of the last shot\<close>

text \<open>
  C3, as the code has it. Let the last shot of the active collection be, after the
  update of a frame, above the ground beyond \<open>x = 420\<close>. In that frame the reported
  \<open>y\<close> is \<open>0.0\<close>, the test of the summary holds, and the summary texts become
  \<open>N/A (>420)\<close> for the distance and \<open>N/A\<close> for the speed; the shot leaves the
  active collection in the same frame.
\<close>

theorem C3_off_window_last:
  assumes "shots (app st) \<noteq> []"
    and "0 < ShotTracker_getY (ShotTracker_update (1 / 120) (last (shots (app st))))"
    and "420 < ShotTracker_getX (ShotTracker_update (1 / 120) (last (shots (app st))))"
  shows "\<exists>st'. run_frame key st = Inr (st', key \<notin> set [''q'', ''Q'']) \<and>
     finPos st' = Str ''N/A (>420)'' \<and> finVel st' = Str ''N/A'' \<and>
     ShotTracker_update (1 / 120) (last (shots (app st))) \<notin> set (shots (app st'))"
proof -
  let ?s = "ShotTracker_update (1 / 120) (last (shots (app st)))"
  let ?r = "updateShots (1 / 120) (app st)"
  have v: "snd ?r = (Str ''N/A (>420)'', Num 0, Str ''N/A'')"
    using updateShots_vars [OF assms(1), of "1 / 120" "([], Str '''', Str '''', Str '''')"]
      body_off_window [OF assms(2,3)] by simp
  have g: "summary_guard (Str ''N/A (>420)'') (Num 0) = Inr True"
    by (simp add: summary_guard_def)
  have n: "?s \<notin> set (shots (fst ?r))"
    using assms(3) by (simp add: updateShots_alive)
  have f: "?s \<noteq> fire l" for l
    using assms(3) getX_fire [of l] by auto
  show ?thesis
  proof (cases "key \<in> set [''q'', ''Q'']")
    case True
    then show ?thesis using v g n
      by (simp add: run_frame_def Let_def)
  next
    case False
    then show ?thesis using v g n f
      by (simp add: run_frame_def Let_def shots_handle_key)
  qed
qed

text \<open>
  An instance: a slow shot followed by a shot that is at \<open>x = 500\<close> after the frame.
\<close>

theorem C3_off_window_last_witness:
  "shots (app (run_init (ProjectileApp_init\<lparr>shots :=
       [fire (adjAngle 15 Launcher_init), fire (adjVel 119960 (adjAngle 15 Launcher_init))]\<rparr>))) \<noteq> [] \<and>
   0 < ShotTracker_getY (ShotTracker_update (1 / 120)
         (fire (adjVel 119960 (adjAngle 15 Launcher_init)))) \<and>
   420 < ShotTracker_getX (ShotTracker_update (1 / 120)
         (fire (adjVel 119960 (adjAngle 15 Launcher_init)))) \<and>
   (\<exists>st'. run_frame ''''
       (run_init (ProjectileApp_init\<lparr>shots :=
         [fire (adjAngle 15 Launcher_init), fire (adjVel 119960 (adjAngle 15 Launcher_init))]\<rparr>)) =
       Inr (st', True) \<and>
     finPos st' = Str ''N/A (>420)'' \<and> finVel st' = Str ''N/A'' \<and>
     ShotTracker_update (1 / 120) (fire (adjVel 119960 (adjAngle 15 Launcher_init)))
       \<notin> set (shots (app st')))"
proof -
  let ?A = "fire (adjVel 119960 (adjAngle 15 Launcher_init))"
  let ?st = "run_init (ProjectileApp_init\<lparr>shots := [fire (adjAngle 15 Launcher_init), ?A]\<rparr>)"
  have l: "last (shots (app ?st)) = ?A" and ne: "shots (app ?st) \<noteq> []"
    by (simp_all add: run_init_def)
  have ya: "0 < ShotTracker_getY (ShotTracker_update (1 / 120) ?A)"
    using getY_fired_pos [of 119960] by simp
  have xa: "420 < ShotTracker_getX (ShotTracker_update (1 / 120) ?A)"
    by (simp add: getX_fired)
  show ?thesis
    using C3_off_window_last [of ?st "''''", unfolded l, OF ne ya xa] ne ya xa by simp
qed

text \<open>
  C3 as stated fails when the shot is not the last of the collection. With the same two
  shots in the other order, the first is above the ground beyond \<open>x = 420\<close> after the
  frame and is dropped, the values returned are those of the second, whose rounded
  height is positive, and both summary texts stay empty.
\<close>

theorem C3_counterexample:
  "0 < ShotTracker_getY (ShotTracker_update (1 / 120)
         (fire (adjVel 119960 (adjAngle 15 Launcher_init)))) \<and>
   420 < ShotTracker_getX (ShotTracker_update (1 / 120)
         (fire (adjVel 119960 (adjAngle 15 Launcher_init)))) \<and>
   run_frame ''''
     \<lparr>app = ProjectileApp_init\<lparr>shots :=
        [fire (adjVel 119960 (adjAngle 15 Launcher_init)), fire (adjAngle 15 Launcher_init)]\<rparr>,
      finPos = Str '''', finVel = Str ''''\<rparr> =
   Inr (\<lparr>app = ProjectileApp_init\<lparr>shots :=
        [ShotTracker_update (1 / 120) (fire (adjAngle 15 Launcher_init))]\<rparr>,
      finPos = Str '''', finVel = Str ''''\<rparr>, True)"
proof -
  let ?A = "fire (adjVel 119960 (adjAngle 15 Launcher_init))"
  let ?B = "fire (adjAngle 15 Launcher_init)"
  let ?a = "ProjectileApp_init\<lparr>shots := [?A, ?B]\<rparr>"
  have ya: "0 < ShotTracker_getY (ShotTracker_update (1 / 120) ?A)"
    using getY_fired_pos [of 119960] by simp
  have xa: "ShotTracker_getX (ShotTracker_update (1 / 120) ?A) = 500"
    by (simp add: getX_fired)
  have yb: "1 / 20 < ShotTracker_getY (ShotTracker_update (1 / 120) ?B)"
    by (rule getY_fired0)
  have xb: "ShotTracker_getX (ShotTracker_update (1 / 120) ?B) = 1 / 6"
    by (simp add: getX_fired0)
  have al: "shots (fst (updateShots (1 / 120) ?a)) = [ShotTracker_update (1 / 120) ?B]"
    using yb by (simp add: updateShots_alive xa xb)
  have fs: "fst (updateShots (1 / 120) ?a) =
      ProjectileApp_init\<lparr>shots := [ShotTracker_update (1 / 120) ?B]\<rparr>"
    using al by (simp add: updateShots_def Let_def)
  have "snd (updateShots (1 / 120) ?a) =
      snd (snd (updateShots_body (1 / 120) ?B ([], Str '''', Str '''', Str '''')))"
    using updateShots_vars [of ?a] by simp
  then have vs: "snd (updateShots (1 / 120) ?a) =
     (Num (round1 (ShotTracker_getX (ShotTracker_update (1 / 120) ?B))),
      Num (round1 (ShotTracker_getY (ShotTracker_update (1 / 120) ?B))),
      Num (round1 (fst (ShotTracker_getVel (ShotTracker_update (1 / 120) ?B)))))"
    using yb by (simp add: body_alive_case xb)
  have g: "summary_guard (Num x) (Num (round1 (ShotTracker_getY (ShotTracker_update (1 / 120) ?B)))) = Inr False" for x
    using round1_pos [OF yb] by (simp add: summary_guard_def)
  have "run_frame ''''
     \<lparr>app = ?a, finPos = Str '''', finVel = Str ''''\<rparr> =
   Inr (\<lparr>app = ProjectileApp_init\<lparr>shots := [ShotTracker_update (1 / 120) ?B]\<rparr>,
      finPos = Str '''', finVel = Str ''''\<rparr>, True)"
    by (simp add: run_frame_def Let_def fs vs g handle_key_def)
  then show ?thesis using ya by (simp add: xa)
qed

text \<open>
  C10. With no active shot the per-frame update returns the empty string for \<open>x\<close>
  (and for \<open>y\<close> and \<open>v\<close>) and leaves the application as it is; the test of the
  summary is false, without comparing \<open>y\<close>; and the frame changes neither summary
  text, whatever the key.
\<close>

theorem C10_empty_frame:
  assumes "shots (app st) = []"
  shows "updateShots dt (app st) = (app st, Str '''', Str '''', Str '''') \<and>
    summary_guard (Str '''') (Str '''') = Inr False \<and>
    run_frame key st =
      Inr (if key \<in> set [''q'', ''Q''] then (st, False)
           else (st\<lparr>app := handle_key key (app st)\<rparr>, True)) \<and>
    (\<exists>st' go. run_frame key st = Inr (st', go) \<and>
       finPos st' = finPos st \<and> finVel st' = finVel st)"
proof -
  have u: "updateShots dt (app st) = (app st, Str '''', Str '''', Str '''')" for dt
    using assms by (simp add: updateShots_def Let_def)
  have g: "summary_guard (Str '''') (Str '''') = Inr False"
    by (simp add: summary_guard_def)
  have r: "run_frame key st =
      Inr (if key \<in> set [''q'', ''Q''] then (st, False)
           else (st\<lparr>app := handle_key key (app st)\<rparr>, True))"
    by (simp add: run_frame_def u g Let_def)
  have "\<exists>st' go. run_frame key st = Inr (st', go) \<and>
       finPos st' = finPos st \<and> finVel st' = finVel st"
    unfolding r by (cases "key \<in> set [''q'', ''Q'']") auto
  with u g r show ?thesis by blast
qed

text \<open>
  An instance: the first frame of a new application, with the fire key pressed.
\<close>

theorem C10_empty_frame_witness:
  "shots (app (run_init ProjectileApp_init)) = [] \<and>
   updateShots (1 / 120) (app (run_init ProjectileApp_init)) =
     (app (run_init ProjectileApp_init), Str '''', Str '''', Str '''') \<and>
   run_frame ''f'' (run_init ProjectileApp_init) =
     Inr (\<lparr>app = ProjectileApp_init\<lparr>shots := [fire Launcher_init]\<rparr>,
           finPos = Str '''', finVel = Str ''''\<rparr>, True)"
proof -
  have e: "shots (app (run_init ProjectileApp_init)) = []"
    by (simp add: run_init_def ProjectileApp_init_def Let_def)
  have l: "launcher ProjectileApp_init = Launcher_init"
    by (simp add: ProjectileApp_init_def Let_def)
  have s: "shots ProjectileApp_init = []"
    by (simp add: ProjectileApp_init_def Let_def)
  show ?thesis
    using C10_empty_frame [OF e, of "1 / 120" "''f''"] e
    by (simp add: run_init_def handle_key_def l s)
qed

end
